theory Spec2Isabelle
  imports Complex_Main
begin

section \<open>Python values used by \<^verbatim>\<open>binance_p2p_python.py\<close>\<close>

text \<open>
  The module has the coroutines \<^verbatim>\<open>fetch_with_timeout\<close>, the closure
  \<^verbatim>\<open>fetch_trade_type_average\<close> and \<^verbatim>\<open>get_binance_p2p_rate\<close>, and a \<^verbatim>\<open>main\<close> that only
  prints the result. The three are embedded as
  functions into \<open>error + 'a\<close>: \<open>Inl e\<close> is the exception \<open>e\<close> leaving the function,
  \<open>Inr v\<close> is the value returned. Only exceptions below Python's \<^verbatim>\<open>Exception\<close>
  class are modelled; these are the ones an \<^verbatim>\<open>except Exception\<close> clause catches.
  Console output (\<^verbatim>\<open>print\<close>) is not modelled.
\<close>

datatype error =
    ClientError | TimeoutError | JSONDecodeError
  | AttributeError | TypeError | KeyError | ValueError | OverflowError
  | ZeroDivisionError | RuntimeError

definition ebind :: "error + 'a \<Rightarrow> ('a \<Rightarrow> error + 'b) \<Rightarrow> error + 'b" where
  "ebind m f = (case m of Inl e \<Rightarrow> Inl e | Inr x \<Rightarrow> f x)"

subsection \<open>Floats: IEEE 754 binary64 with round-to-nearest, ties-to-even\<close>

text \<open>
  A Python \<^verbatim>\<open>float\<close> is a sign and a magnitude, an infinity or a NaN. \<open>Fin s m\<close> is
  the finite number of magnitude \<open>m \<ge> 0\<close>, negative when \<open>s\<close> holds, so \<open>Fin True 0\<close> is
  \<^verbatim>\<open>-0.0\<close>. Every operation rounds its exact rational result to the nearest binary64
  number (53 significant bits, least exponent \<open>-1074\<close>), ties to even, and overflows to
  an infinity from \<open>2 ^ 1024\<close> on.
\<close>

datatype pyfloat = Fin bool rat | Inf bool | NaN

fun bit_length :: "nat \<Rightarrow> nat" where
  "bit_length n = (if n = 0 then 0 else Suc (bit_length (n div 2)))"

declare bit_length.simps [simp del]

definition floor_log2 :: "rat \<Rightarrow> int" where
  "floor_log2 q =
     (if 1 \<le> q then int (bit_length (nat \<lfloor>q\<rfloor>)) - 1
      else - int (bit_length (nat (\<lceil>1 / q\<rceil> - 1))))"

definition pow2 :: "int \<Rightarrow> rat" where
  "pow2 k = (if 0 \<le> k then 2 ^ nat k else 1 / 2 ^ nat (- k))"

definition round_half_even :: "rat \<Rightarrow> int" where
  "round_half_even x =
     (let f = \<lfloor>x\<rfloor>; d = x - of_int f
      in if d < 1 / 2 then f
         else if 1 / 2 < d then f + 1
         else if even f then f else f + 1)"

definition nearest_binary64 :: "rat \<Rightarrow> rat" where
  "nearest_binary64 q =
     (if q = 0 then 0
      else let k = max (floor_log2 q - 52) (- 1074)
           in of_int (round_half_even (q / pow2 k)) * pow2 k)"

definition fl :: "bool \<Rightarrow> rat \<Rightarrow> pyfloat" where
  "fl s m = (let v = nearest_binary64 m in if 2 ^ 1024 \<le> v then Inf s else Fin s v)"

definition signed :: "bool \<Rightarrow> rat \<Rightarrow> rat" where
  "signed s m = (if s then - m else m)"

text \<open>\<^verbatim>\<open>x + y\<close> on floats. An exact sum of zero is \<^verbatim>\<open>-0.0\<close> only when both are negative.\<close>

fun fadd :: "pyfloat \<Rightarrow> pyfloat \<Rightarrow> pyfloat" where
  "fadd NaN y = NaN"
| "fadd x NaN = NaN"
| "fadd (Inf s) (Inf t) = (if s = t then Inf s else NaN)"
| "fadd (Inf s) (Fin t b) = Inf s"
| "fadd (Fin s a) (Inf t) = Inf t"
| "fadd (Fin s a) (Fin t b) =
     (let r = signed s a + signed t b
      in if r = 0 then Fin (s \<and> t) 0 else fl (r < 0) \<bar>r\<bar>)"

text \<open>
  \<^verbatim>\<open>x / n\<close> for a float \<open>x\<close> and a non-negative \<^verbatim>\<open>int\<close> \<open>n\<close>: the source divides by
  \<^verbatim>\<open>len(prices)\<close> and by the literal \<^verbatim>\<open>2\<close> only. Python converts \<open>n\<close> to a float and
  raises \<^verbatim>\<open>ZeroDivisionError\<close> for zero. The length of a list is below \<open>2 ^ 63\<close>, so
  the conversion cannot overflow.
\<close>

definition truediv :: "pyfloat \<Rightarrow> nat \<Rightarrow> error + pyfloat" where
  "truediv x n =
     (if n = 0 then Inl ZeroDivisionError
      else Inr (case x of
                  Fin s m \<Rightarrow> fl s (m / nearest_binary64 (of_nat n))
                | Inf s \<Rightarrow> Inf s
                | NaN \<Rightarrow> NaN))"

text \<open>
  \<^verbatim>\<open>round(x, 2)\<close>: CPython writes the float as a decimal with two digits after the point,
  correctly rounded with ties to even, and reads that decimal back as a float. Infinities
  and NaN round to themselves. (The \<^verbatim>\<open>OverflowError\<close> of \<^verbatim>\<open>round\<close> needs a rounded
  decimal beyond the largest float; a binary64 number that large is an integer and rounds
  to itself.)
\<close>

definition round2 :: "pyfloat \<Rightarrow> pyfloat" where
  "round2 x =
     (case x of
        Fin s m \<Rightarrow> fl s (of_int (round_half_even (m * 100)) / 100)
      | Inf s \<Rightarrow> Inf s
      | NaN \<Rightarrow> NaN)"

text \<open>\<^verbatim>\<open>bool(x)\<close> for a float: false exactly for the two zeros.\<close>

definition float_truthy :: "pyfloat \<Rightarrow> bool" where
  "float_truthy x = (case x of Fin s m \<Rightarrow> m \<noteq> 0 | Inf s \<Rightarrow> True | NaN \<Rightarrow> True)"

text \<open>\<^verbatim>\<open>float(n)\<close> for an \<^verbatim>\<open>int\<close>: correctly rounded, \<^verbatim>\<open>OverflowError\<close> when too large.\<close>

definition float_of_int :: "int \<Rightarrow> error + pyfloat" where
  "float_of_int n =
     (case fl (n < 0) (of_int \<bar>n\<bar>) of
        Inf s \<Rightarrow> Inl OverflowError
      | x \<Rightarrow> Inr x)"

text \<open>
  \<^verbatim>\<open>sum(prices)\<close>: the additions run from left to right, starting from the integer
  \<^verbatim>\<open>0\<close>. (CPython from 3.12 on adds a compensation term to a float sum; the embedding
  is the plain left-to-right sum of the language reference.)
\<close>

definition py_sum :: "pyfloat list \<Rightarrow> pyfloat" where
  "py_sum ps = foldl fadd (Fin False 0) ps"

subsection \<open>Parsed JSON\<close>

text \<open>
  \<^verbatim>\<open>response.json()\<close> yields \<^verbatim>\<open>None\<close>, a \<^verbatim>\<open>bool\<close>, an \<^verbatim>\<open>int\<close>, a \<^verbatim>\<open>float\<close>, a \<^verbatim>\<open>str\<close>,
  a \<^verbatim>\<open>list\<close> or a \<^verbatim>\<open>dict\<close> with string keys. A dict is an association list read with
  \<open>map_of\<close>.
\<close>

datatype json =
    JNull | JBool bool | JInt int | JFloat pyfloat | JStr string
  | JList "json list" | JObj "(string \<times> json) list"

text \<open>\<^verbatim>\<open>d.get(k, default)\<close>: only a dict has the method.\<close>

definition dict_get :: "json \<Rightarrow> string \<Rightarrow> json \<Rightarrow> error + json" where
  "dict_get d k dflt =
     (case d of
        JObj kvs \<Rightarrow> Inr (case map_of kvs k of None \<Rightarrow> dflt | Some v \<Rightarrow> v)
      | _ \<Rightarrow> Inl AttributeError)"

text \<open>\<^verbatim>\<open>v[k]\<close> with a string key \<open>k\<close>.\<close>

definition getitem :: "json \<Rightarrow> string \<Rightarrow> error + json" where
  "getitem v k =
     (case v of
        JObj kvs \<Rightarrow> (case map_of kvs k of None \<Rightarrow> Inl KeyError | Some x \<Rightarrow> Inr x)
      | _ \<Rightarrow> Inl TypeError)"

text \<open>\<^verbatim>\<open>v == "..."\<close> and \<^verbatim>\<open>v == True\<close>. In Python \<^verbatim>\<open>1 == True\<close> and \<^verbatim>\<open>1.0 == True\<close> hold.\<close>

definition eq_str :: "json \<Rightarrow> string \<Rightarrow> bool" where
  "eq_str v s = (case v of JStr t \<Rightarrow> t = s | _ \<Rightarrow> False)"

definition eq_True :: "json \<Rightarrow> bool" where
  "eq_True v =
     (case v of
        JBool b \<Rightarrow> b
      | JInt n \<Rightarrow> n = 1
      | JFloat x \<Rightarrow> x = Fin False 1
      | _ \<Rightarrow> False)"

text \<open>\<^verbatim>\<open>bool(v)\<close>, \<^verbatim>\<open>len(v)\<close> and the items \<^verbatim>\<open>for ad in v\<close> runs over.\<close>

definition truthy :: "json \<Rightarrow> bool" where
  "truthy v =
     (case v of
        JNull \<Rightarrow> False
      | JBool b \<Rightarrow> b
      | JInt n \<Rightarrow> n \<noteq> 0
      | JFloat x \<Rightarrow> float_truthy x
      | JStr s \<Rightarrow> s \<noteq> []
      | JList xs \<Rightarrow> xs \<noteq> []
      | JObj kvs \<Rightarrow> kvs \<noteq> [])"

definition py_len :: "json \<Rightarrow> error + nat" where
  "py_len v =
     (case v of
        JStr s \<Rightarrow> Inr (length s)
      | JList xs \<Rightarrow> Inr (length xs)
      | JObj kvs \<Rightarrow> Inr (length (remdups (map fst kvs)))
      | _ \<Rightarrow> Inl TypeError)"

definition py_iter :: "json \<Rightarrow> error + json list" where
  "py_iter v =
     (case v of
        JStr s \<Rightarrow> Inr (map (\<lambda>c. JStr [c]) s)
      | JList xs \<Rightarrow> Inr xs
      | JObj kvs \<Rightarrow> Inr (map JStr (remdups (map fst kvs)))
      | _ \<Rightarrow> Inl TypeError)"

text \<open>
  \<^verbatim>\<open>float(v)\<close>. The grammar of \<^verbatim>\<open>float\<close> on a string belongs to the interpreter, so it is
  the parameter \<open>parse\<close>: \<open>None\<close> stands for \<^verbatim>\<open>ValueError\<close>.
\<close>

definition py_float :: "(string \<Rightarrow> pyfloat option) \<Rightarrow> json \<Rightarrow> error + pyfloat" where
  "py_float parse v =
     (case v of
        JFloat x \<Rightarrow> Inr x
      | JInt n \<Rightarrow> float_of_int n
      | JBool b \<Rightarrow> Inr (Fin False (if b then 1 else 0))
      | JStr s \<Rightarrow> (case parse s of None \<Rightarrow> Inl ValueError | Some x \<Rightarrow> Inr x)
      | _ \<Rightarrow> Inl TypeError)"

subsection \<open>\<^verbatim>\<open>str.upper\<close> on ASCII\<close>

definition upper_char :: "char \<Rightarrow> char" where
  "upper_char c =
     (case map_of (zip ''abcdefghijklmnopqrstuvwxyz'' ''ABCDEFGHIJKLMNOPQRSTUVWXYZ'') c of
        None \<Rightarrow> c
      | Some u \<Rightarrow> u)"

definition upper :: "string \<Rightarrow> string" where
  "upper s = map upper_char s"

section \<open>The environment\<close>

datatype verb = GET | POST

record request =
  req_verb :: verb
  req_url :: string
  req_headers :: "(string \<times> string) list option"
  req_body :: "string option"
  req_timeout :: nat

text \<open>
  What the program cannot decide itself: \<open>http\<close> is the outcome of one request through an
  \<^verbatim>\<open>aiohttp\<close> session followed by \<^verbatim>\<open>response.json()\<close> (a connection failure, a timeout
  and a body that is not JSON are exceptions), \<open>float_of_str\<close> is \<^verbatim>\<open>float\<close> on strings,
  and \<open>gather_fault\<close> is an exception that \<^verbatim>\<open>await asyncio.gather(...)\<close> raises by itself.
\<close>

record runtime =
  http :: "request \<Rightarrow> error + json"
  float_of_str :: "string \<Rightarrow> pyfloat option"
  gather_fault :: "error option"

section \<open>The program\<close>

subsection \<open>\<^verbatim>\<open>fetch_with_timeout\<close>\<close>

definition fetch_with_timeout ::
  "runtime \<Rightarrow> string \<Rightarrow> string \<Rightarrow> (string \<times> string) list option \<Rightarrow> string option \<Rightarrow> nat
     \<Rightarrow> error + json" where
  "fetch_with_timeout rt u method hdrs dat tmo =
     (if upper method = ''POST''
      then http rt \<lparr>req_verb = POST, req_url = u, req_headers = hdrs,
                    req_body = dat, req_timeout = tmo\<rparr>
      else http rt \<lparr>req_verb = GET, req_url = u, req_headers = hdrs,
                    req_body = None, req_timeout = tmo\<rparr>)"

subsection \<open>\<^verbatim>\<open>fetch_trade_type_average\<close>\<close>

definition url :: string where
  "url = ''https://p2p.binance.com/bapi/c2c/v2/friendly/c2c/adv/search''"

definition headers :: "(string \<times> string) list" where
  "headers =
     [(''Content-Type'', ''application/json''),
      (''User-Agent'', ''Mozilla/5.0 (Windows NT 10.0; Win64; x64) AppleWebKit/537.36 (KHTML, like Gecko) Chrome/125.0.0.0 Safari/537.36'')]"

text \<open>
  \<^verbatim>\<open>json.dumps(payload)\<close>. The trade type is only ever \<^verbatim>\<open>'BUY'\<close> or \<^verbatim>\<open>'SELL'\<close>, which
  \<^verbatim>\<open>json.dumps\<close> writes unchanged between double quotes.
\<close>

definition payload_json :: "string \<Rightarrow> string" where
  \<open>payload_json trade_type =
     ''{"fiat": "VES", "tradeType": "'' @ trade_type @
     ''", "asset": "USDT", "page": 1, "rows": 10, "merchantCheck": false}''\<close>

text \<open>\<^verbatim>\<open>is_success = data.get('code') == "000000" or data.get('success') == True\<close>\<close>

definition is_success :: "json \<Rightarrow> error + bool" where
  "is_success dat =
     ebind (dict_get dat ''code'' JNull) (\<lambda>c.
       if eq_str c ''000000'' then Inr True
       else ebind (dict_get dat ''success'' JNull) (\<lambda>s. Inr (eq_True s)))"

text \<open>
  \<^verbatim>\<open>has_data = data.get('data') and len(data.get('data', [])) > 0\<close>, as the truth value
  the \<^verbatim>\<open>if\<close> reads.
\<close>

definition has_data :: "json \<Rightarrow> error + bool" where
  "has_data dat =
     ebind (dict_get dat ''data'' JNull) (\<lambda>v.
       if \<not> truthy v then Inr False
       else ebind (dict_get dat ''data'' (JList [])) (\<lambda>w.
              ebind (py_len w) (\<lambda>n. Inr (0 < n))))"

text \<open>\<^verbatim>\<open>float(ad['adv']['price'])\<close> and the list comprehension over the advertisements.\<close>

definition ad_price :: "(string \<Rightarrow> pyfloat option) \<Rightarrow> json \<Rightarrow> error + pyfloat" where
  "ad_price parse ad =
     ebind (getitem ad ''adv'') (\<lambda>adv.
       ebind (getitem adv ''price'') (\<lambda>p. py_float parse p))"

fun ad_prices :: "(string \<Rightarrow> pyfloat option) \<Rightarrow> json list \<Rightarrow> error + pyfloat list" where
  "ad_prices parse [] = Inr []"
| "ad_prices parse (ad # ads) =
     ebind (ad_price parse ad) (\<lambda>p.
       ebind (ad_prices parse ads) (\<lambda>ps. Inr (p # ps)))"

text \<open>
  \<^verbatim>\<open>await fetch_with_timeout(url, method='POST', headers=headers, data=json.dumps(payload))\<close>,
  with the default timeout of 10 seconds.
\<close>

definition post_search :: "runtime \<Rightarrow> string \<Rightarrow> error + json" where
  "post_search rt trade_type =
     fetch_with_timeout rt url ''POST'' (Some headers) (Some (payload_json trade_type)) 10"

text \<open>The body of the \<^verbatim>\<open>try\<close> block.\<close>

definition fetch_trade_type_average_try :: "runtime \<Rightarrow> string \<Rightarrow> error + pyfloat option" where
  "fetch_trade_type_average_try rt trade_type =
     ebind (post_search rt trade_type) (\<lambda>dat.
       ebind (is_success dat) (\<lambda>ok.
         ebind (has_data dat) (\<lambda>nonempty.
           if ok \<and> nonempty
           then ebind (getitem dat ''data'') (\<lambda>v.
                  ebind (py_iter v) (\<lambda>ads.
                    ebind (ad_prices (float_of_str rt) ads) (\<lambda>prices.
                      ebind (truediv (py_sum prices) (length prices)) (\<lambda>avg.
                        Inr (Some avg)))))
           else Inr None)))"

text \<open>\<^verbatim>\<open>except Exception\<close>: the handler prints and returns \<^verbatim>\<open>None\<close>.\<close>

definition fetch_trade_type_average :: "runtime \<Rightarrow> string \<Rightarrow> error + pyfloat option" where
  "fetch_trade_type_average rt trade_type =
     (case fetch_trade_type_average_try rt trade_type of
        Inl e \<Rightarrow> Inr None
      | Inr r \<Rightarrow> Inr r)"

subsection \<open>\<^verbatim>\<open>get_binance_p2p_rate\<close>\<close>

record rate_result =
  buy :: "pyfloat option"
  sell :: "pyfloat option"
  average :: "pyfloat option"

text \<open>
  \<^verbatim>\<open>asyncio.gather\<close> runs the two coroutines, which share no state, and returns both
  results; an exception of one of them, or of the event loop, leaves the \<^verbatim>\<open>await\<close>.
\<close>

definition gather :: "runtime \<Rightarrow> error + 'a \<Rightarrow> error + 'b \<Rightarrow> error + ('a \<times> 'b)" where
  "gather rt a b =
     (case gather_fault rt of
        Some e \<Rightarrow> Inl e
      | None \<Rightarrow> ebind a (\<lambda>x. ebind b (\<lambda>y. Inr (x, y))))"

text \<open>The truth value of an \<^verbatim>\<open>Optional[float]\<close>: \<^verbatim>\<open>None\<close> and the zeros are false.\<close>

definition avg_truthy :: "pyfloat option \<Rightarrow> bool" where
  "avg_truthy a = (case a of None \<Rightarrow> False | Some x \<Rightarrow> float_truthy x)"

text \<open>\<^verbatim>\<open>round(a, 2) if a else None\<close>\<close>

definition round_if :: "pyfloat option \<Rightarrow> pyfloat option" where
  "round_if a = (if avg_truthy a then map_option round2 a else None)"

definition get_binance_p2p_rate_try :: "runtime \<Rightarrow> error + rate_result" where
  "get_binance_p2p_rate_try rt =
     ebind (gather rt (fetch_trade_type_average rt ''BUY'')
                      (fetch_trade_type_average rt ''SELL'')) (\<lambda>(buy_avg, sell_avg).
       if avg_truthy buy_avg \<and> avg_truthy sell_avg
       then (case (buy_avg, sell_avg) of
               (Some b, Some s) \<Rightarrow>
                 ebind (truediv (fadd b s) 2) (\<lambda>market_average.
                   Inr \<lparr>buy = Some (round2 b), sell = Some (round2 s),
                        average = Some (round2 market_average)\<rparr>)
             | _ \<Rightarrow> Inl TypeError)  \<comment> \<open>arithmetic on \<^verbatim>\<open>None\<close>\<close>
       else Inr \<lparr>buy = round_if buy_avg, sell = round_if sell_avg, average = None\<rparr>)"

definition get_binance_p2p_rate :: "runtime \<Rightarrow> error + rate_result option" where
  "get_binance_p2p_rate rt =
     (case get_binance_p2p_rate_try rt of
        Inl e \<Rightarrow> Inr None
      | Inr r \<Rightarrow> Inr (Some r))"

section \<open>The validation of a response, as a predicate\<close>

text \<open>
  \<open>field d k\<close> is the field \<open>k\<close> of a response, \<^verbatim>\<open>None\<close> when \<open>d\<close> has no such field or
  is not an object.
\<close>

definition field :: "json \<Rightarrow> string \<Rightarrow> json" where
  "field d k =
     (case d of
        JObj kvs \<Rightarrow> (case map_of kvs k of None \<Rightarrow> JNull | Some v \<Rightarrow> v)
      | _ \<Rightarrow> JNull)"

definition nonempty_list :: "json \<Rightarrow> bool" where
  "nonempty_list v = (case v of JList ads \<Rightarrow> ads \<noteq> [] | _ \<Rightarrow> False)"

text \<open>
  The specification's validation, in its words: the status code field equals the string
  \<^verbatim>\<open>"000000"\<close> or the boolean success field equals true, and the data field is a
  non-empty list.
\<close>

definition spec_valid :: "json \<Rightarrow> bool" where
  "spec_valid dat \<longleftrightarrow>
     (field dat ''code'' = JStr ''000000'' \<or> field dat ''success'' = JBool True)
     \<and> nonempty_list (field dat ''data'')"

text \<open>The same with Python's \<^verbatim>\<open>==\<close>, under which \<^verbatim>\<open>1\<close> and \<^verbatim>\<open>1.0\<close> equal \<^verbatim>\<open>True\<close>.\<close>

definition code_valid :: "json \<Rightarrow> bool" where
  "code_valid dat \<longleftrightarrow>
     (eq_str (field dat ''code'') ''000000'' \<or> eq_True (field dat ''success''))
     \<and> nonempty_list (field dat ''data'')"

text \<open>
  The number a finite float stands for, and the exact arithmetic mean
  \<open>(p1 + ... + pN) / N\<close> of the numbers a list of floats stands for.
\<close>

definition float_value :: "pyfloat \<Rightarrow> rat" where
  "float_value x = (case x of Fin s m \<Rightarrow> signed s m | Inf s \<Rightarrow> 0 | NaN \<Rightarrow> 0)"

definition exact_mean :: "pyfloat list \<Rightarrow> rat" where
  "exact_mean ps = sum_list (map float_value ps) / of_nat (length ps)"

text \<open>\<^verbatim>\<open>sum(prices) / len(prices)\<close> in float arithmetic, absent for no prices.\<close>

definition float_mean :: "pyfloat list \<Rightarrow> pyfloat option" where
  "float_mean ps = (case truediv (py_sum ps) (length ps) of Inl e \<Rightarrow> None | Inr a \<Rightarrow> Some a)"


section \<open>Concrete runs\<close>

text \<open>
  An instance of \<open>float_of_str\<close> for the runs below: on an unsigned decimal literal
  (digits, optionally a point and digits) it is the float nearest to the literal, as
  \<^verbatim>\<open>float\<close> is; every other string is refused.
\<close>

definition digit_of :: "char \<Rightarrow> nat option" where
  "digit_of c =
     (let n = (of_char c :: nat) in if 48 \<le> n \<and> n \<le> 57 then Some (n - 48) else None)"

fun digits_value :: "nat \<Rightarrow> string \<Rightarrow> nat option" where
  "digits_value acc [] = Some acc"
| "digits_value acc (c # cs) =
     (case digit_of c of None \<Rightarrow> None | Some d \<Rightarrow> digits_value (10 * acc + d) cs)"

definition float_of_decimal :: "string \<Rightarrow> pyfloat option" where
  "float_of_decimal s =
     (let ip = takeWhile (\<lambda>c. c \<noteq> CHR ''.'') s;
          fp = drop 1 (dropWhile (\<lambda>c. c \<noteq> CHR ''.'') s)
      in if ip = [] \<and> fp = [] then None
         else case (digits_value 0 ip, digits_value 0 fp) of
                (Some i, Some f) \<Rightarrow> Some (fl False (of_nat i + of_nat f / 10 ^ length fp))
              | _ \<Rightarrow> None)"

text \<open>A response in the shape the endpoint sends, and a server answering by trade type.\<close>

definition advert :: "json \<Rightarrow> json" where
  "advert p = JObj [(''adv'', JObj [(''price'', p)])]"

definition ok_response :: "json list \<Rightarrow> json" where
  "ok_response ps = JObj [(''code'', JStr ''000000''), (''data'', JList (map advert ps))]"

definition serve :: "error + json \<Rightarrow> error + json \<Rightarrow> request \<Rightarrow> error + json" where
  "serve b s r =
     (if req_verb r = POST \<and> req_body r = Some (payload_json ''BUY'') then b
      else if req_verb r = POST \<and> req_body r = Some (payload_json ''SELL'') then s
      else Inl ClientError)"

definition scenario :: "error + json \<Rightarrow> error + json \<Rightarrow> runtime" where
  "scenario b s = \<lparr>http = serve b s, float_of_str = float_of_decimal, gather_fault = None\<rparr>"

text \<open>Scenario A of the specification: BUY 36.50, 36.60, 36.40 and SELL 36.80, 36.90.\<close>

definition scenario_A :: runtime where
  "scenario_A =
     scenario (Inr (ok_response [JStr ''36.50'', JStr ''36.60'', JStr ''36.40'']))
              (Inr (ok_response [JStr ''36.80'', JStr ''36.90'']))"

text \<open>Scenario B: the BUY request times out, SELL has the single price 37.00.\<close>

definition scenario_B :: runtime where
  "scenario_B = scenario (Inl TimeoutError) (Inr (ok_response [JStr ''37.00'']))"

text \<open>Scenario C: both responses carry an empty data list.\<close>

definition scenario_C :: runtime where
  "scenario_C = scenario (Inr (ok_response [])) (Inr (ok_response []))"

text \<open>Scenario D: the responses of Scenario A, and the \<^verbatim>\<open>await\<close> itself fails.\<close>

definition scenario_D :: runtime where
  "scenario_D = scenario_A\<lparr>gather_fault := Some RuntimeError\<rparr>"

text \<open>A BUY side whose only price is zero, next to a SELL side at 37.00.\<close>

definition scenario_zero :: runtime where
  "scenario_zero =
     scenario (Inr (ok_response [JStr ''0.00''])) (Inr (ok_response [JStr ''37.00'']))"

text \<open>A response whose success field is the number 1 and which has no status code.\<close>

definition response_success_one :: json where
  "response_success_one = JObj [(''success'', JInt 1), (''data'', JList [advert (JInt 5)])]"

definition scenario_success_one :: runtime where
  "scenario_success_one = scenario (Inr response_success_one) (Inr response_success_one)"

text \<open>A BUY side with a price that is no number.\<close>

definition scenario_malformed :: runtime where
  "scenario_malformed =
     scenario (Inr (ok_response [JStr ''36.50'', JStr ''n/a'']))
              (Inr (ok_response [JStr ''37.00'']))"

section \<open>Evaluation rules\<close>

lemma ebind_simps [simp]: "ebind (Inl e) f = Inl e" "ebind (Inr x) f = f x"
  by (simp_all add: ebind_def)

lemma bit_length_0 [simp]: "bit_length 0 = 0"
  by (simp add: bit_length.simps)

lemma bit_length_1 [simp]: "bit_length (Suc 0) = 1" "bit_length 1 = 1"
  by (simp_all add: bit_length.simps)

lemma bit_length_Bit0 [simp]:
  "bit_length (numeral (Num.Bit0 n)) = Suc (bit_length (numeral n))"
  by (subst bit_length.simps) (simp add: numeral_Bit0_div_2)

lemma bit_length_Bit1 [simp]:
  "bit_length (numeral (Num.Bit1 n)) = Suc (bit_length (numeral n))"
  by (subst bit_length.simps) (simp add: numeral_Bit1_div_2)

lemma floor_rat_numeral [simp]:
  "\<lfloor>numeral a / numeral b :: rat\<rfloor> = numeral a div numeral b"
  by (metis floor_divide_of_int_eq of_int_numeral)

lemma ceiling_rat_numeral [simp]:
  "\<lceil>numeral a / numeral b :: rat\<rceil> = - (- numeral a div numeral b)"
  by (metis ceiling_def floor_divide_of_int_eq minus_divide_left of_int_minus of_int_numeral)

lemmas float_eval = fl_def signed_def nearest_binary64_def floor_log2_def pow2_def
  round_half_even_def Let_def truediv_def round2_def float_truthy_def py_sum_def
  float_of_int_def float_value_def exact_mean_def float_mean_def

lemmas json_eval = dict_get_def getitem_def eq_str_def eq_True_def truthy_def py_len_def
  py_iter_def py_float_def field_def nonempty_list_def spec_valid_def code_valid_def

lemmas prog_eval = fetch_with_timeout_def upper_def upper_char_def url_def headers_def
  payload_json_def post_search_def is_success_def has_data_def ad_price_def
  fetch_trade_type_average_try_def fetch_trade_type_average_def gather_def avg_truthy_def
  round_if_def get_binance_p2p_rate_try_def get_binance_p2p_rate_def

lemmas scen_eval = digit_of_def float_of_decimal_def advert_def ok_response_def serve_def
  scenario_def scenario_A_def scenario_B_def scenario_C_def scenario_D_def scenario_zero_def
  response_success_one_def scenario_success_one_def scenario_malformed_def

lemma post_search_scenario:
  "post_search (scenario b s) ''BUY'' = b" "post_search (scenario b s) ''SELL'' = s"
  by (simp_all add: prog_eval scen_eval)

section \<open>The rounding of floats\<close>

text \<open>
  \<open>floor_log2\<close> finds the binade of a positive rational, and \<open>nearest_binary64\<close>
  returns a multiple of the spacing of that binade with a significand of at most
  \<open>2 ^ 53\<close>, at most half a spacing away from its argument.
\<close>

lemma bit_length_bounds:
  "0 < n \<Longrightarrow> 2 ^ (bit_length n - 1) \<le> n \<and> n < 2 ^ bit_length n"
proof (induction n rule: bit_length.induct)
  case (1 n)
  show ?case
  proof (cases "n div 2 = 0")
    case True
    with 1(2) have "n = 1" by (simp add: div_eq_0_iff)
    then show ?thesis by simp
  next
    case False
    with 1 have IH: "2 ^ (bit_length (n div 2) - 1) \<le> n div 2" "n div 2 < 2 ^ bit_length (n div 2)"
      by auto
    have pos: "0 < bit_length (n div 2)"
      using False by (subst bit_length.simps) simp
    have bl: "bit_length n = Suc (bit_length (n div 2))"
      using 1(2) by (subst bit_length.simps) simp
    from pos have "(2::nat) ^ bit_length (n div 2) = 2 * 2 ^ (bit_length (n div 2) - 1)"
      by (cases "bit_length (n div 2)") simp_all
    with IH have "2 ^ bit_length (n div 2) \<le> n" "n < 2 * 2 ^ bit_length (n div 2)"
      by linarith+
    with bl show ?thesis by simp
  qed
qed

lemma pow2_powi: "pow2 k = 2 powi k"
  by (simp add: pow2_def power_int_def power_one_over inverse_eq_divide)

lemma pow2_pos [simp]: "0 < pow2 k"
  by (simp add: pow2_def)

lemma pow2_nonzero [simp]: "pow2 k \<noteq> 0"
  using pow2_pos [of k] by linarith

lemma pow2_add: "pow2 (j + k) = pow2 j * pow2 k"
  by (simp add: pow2_powi power_int_add)

lemma pow2_nat: "pow2 (int n) = 2 ^ n"
  by (simp add: pow2_def)

lemma round_half_even_error: "\<bar>of_int (round_half_even x) - x\<bar> \<le> 1 / 2"
proof -
  have "of_int \<lfloor>x\<rfloor> \<le> x" "x < of_int \<lfloor>x\<rfloor> + 1"
    by linarith+
  then show ?thesis
    unfolding round_half_even_def Let_def by (auto simp: abs_le_iff)
qed

lemma round_half_even_of_int [simp]: "round_half_even (of_int n) = n"
  by (simp add: round_half_even_def)

lemma floor_log2_bounds:
  assumes "0 < q"
  shows "pow2 (floor_log2 q) \<le> q \<and> q < pow2 (floor_log2 q + 1)"
proof (cases "1 \<le> q")
  case True
  define n where "n = nat \<lfloor>q\<rfloor>"
  have n: "0 < n" "of_nat n \<le> q" "q < of_nat n + 1"
    using True by (auto simp: n_def le_nat_iff) linarith+
  from bit_length_bounds [OF n(1)]
  have b: "2 ^ (bit_length n - 1) \<le> n" "n < 2 ^ bit_length n" by auto
  have pos: "0 < bit_length n"
    using n(1) by (subst bit_length.simps) simp
  have fl: "floor_log2 q = int (bit_length n - 1)"
    using True pos by (simp add: floor_log2_def n_def)
  have "pow2 (floor_log2 q) = of_nat (2 ^ (bit_length n - 1))"
    by (simp add: fl pow2_nat)
  also have "\<dots> \<le> of_nat n"
    using b(1) of_nat_le_iff by blast
  finally have lo: "pow2 (floor_log2 q) \<le> q"
    using n(2) by linarith
  have "floor_log2 q + 1 = int (bit_length n)"
    using pos by (simp add: fl)
  then have "pow2 (floor_log2 q + 1) = of_nat (2 ^ bit_length n)"
    by (simp add: pow2_nat)
  moreover have "(of_nat (n + 1) :: rat) \<le> of_nat (2 ^ bit_length n)"
    using b(2) of_nat_le_iff Suc_leI by (metis Suc_eq_plus1)
  ultimately have "q < pow2 (floor_log2 q + 1)"
    using n(3) by simp
  with lo show ?thesis by simp
next
  case False
  define c where "c = nat (\<lceil>1 / q\<rceil> - 1)"
  have r: "1 < 1 / q"
    using False assms by simp
  then have c: "0 < c" "of_nat c < 1 / q" "1 / q \<le> of_nat c + 1"
    unfolding c_def by (auto simp: less_ceiling_iff) linarith+
  from bit_length_bounds [OF c(1)]
  have b: "2 ^ (bit_length c - 1) \<le> c" "c < 2 ^ bit_length c" by auto
  have pos: "0 < bit_length c"
    using c(1) by (subst bit_length.simps) simp
  have fl: "floor_log2 q = - int (bit_length c)"
    using False by (simp add: floor_log2_def c_def)
  have up: "1 / q \<le> 2 ^ bit_length c"
  proof -
    have "(of_nat (c + 1) :: rat) \<le> of_nat (2 ^ bit_length c)"
      using b(2) of_nat_le_iff Suc_leI by (metis Suc_eq_plus1)
    then have "(of_nat c :: rat) + 1 \<le> 2 ^ bit_length c"
      by simp
    with c(3) show ?thesis by linarith
  qed
  have low: "2 ^ (bit_length c - 1) < 1 / q"
  proof -
    have "(of_nat (2 ^ (bit_length c - 1)) :: rat) \<le> of_nat c"
      using b(1) of_nat_le_iff by blast
    then have "(2 :: rat) ^ (bit_length c - 1) \<le> of_nat c"
      by simp
    with c(2) show ?thesis by linarith
  qed
  have "pow2 (floor_log2 q) = 1 / 2 ^ bit_length c"
    using pos by (simp add: fl pow2_def)
  moreover have "1 / 2 ^ bit_length c \<le> q"
    using up assms by (simp add: field_simps)
  moreover have "pow2 (floor_log2 q + 1) = 1 / 2 ^ (bit_length c - 1)"
  proof -
    have "floor_log2 q + 1 = - int (bit_length c - 1)"
      using pos by (simp add: fl)
    then have "pow2 (floor_log2 q + 1) = pow2 (- int (bit_length c - 1))"
      by simp
    also have "\<dots> = 1 / 2 ^ (bit_length c - 1)"
      by (simp add: pow2_def del: of_nat_diff)
    finally show ?thesis .
  qed
  moreover have "q < 1 / 2 ^ (bit_length c - 1)"
    using low assms by (simp add: field_simps)
  ultimately show ?thesis by simp
qed


lemma nearest_binary64_error:
  assumes "0 < q"
  shows "\<bar>nearest_binary64 q - q\<bar> \<le> pow2 (max (floor_log2 q - 52) (- 1074)) / 2"
proof -
  define k where "k = max (floor_log2 q - 52) (- 1074)"
  define x where "x = q / pow2 k"
  define r :: rat where "r = of_int (round_half_even x)"
  have near: "nearest_binary64 q = r * pow2 k"
    using assms by (simp add: nearest_binary64_def Let_def k_def x_def r_def)
  have q: "q = x * pow2 k"
    by (simp add: x_def)
  have "r * pow2 k - q = (r - x) * pow2 k"
    by (subst q) (simp add: left_diff_distrib)
  then have "\<bar>r * pow2 k - q\<bar> = \<bar>r - x\<bar> * pow2 k"
    by (simp add: abs_mult less_imp_le)
  also have "\<dots> \<le> 1 / 2 * pow2 k"
    unfolding r_def by (intro mult_right_mono round_half_even_error) (simp add: less_imp_le)
  finally show ?thesis
    by (simp add: near k_def)
qed

lemma nearest_binary64_significand:
  assumes "0 < q"
  shows "\<exists>M. nearest_binary64 q = of_int M * pow2 (max (floor_log2 q - 52) (- 1074))
           \<and> 0 \<le> M \<and> M \<le> 2 ^ 53"
proof -
  define k where "k = max (floor_log2 q - 52) (- 1074)"
  define x where "x = q / pow2 k"
  have "0 < x"
    using assms by (simp add: x_def)
  have "q < pow2 (floor_log2 q + 1)"
    using floor_log2_bounds [OF assms] by simp
  also have "pow2 (floor_log2 q + 1) = pow2 (floor_log2 q - 52) * pow2 53"
    using pow2_add [of "floor_log2 q - 52" 53] by (simp add: add.commute)
  also have "\<dots> \<le> pow2 k * pow2 53"
    by (intro mult_right_mono) (simp_all add: k_def pow2_powi power_int_increasing less_imp_le)
  finally have "x < pow2 53"
    using pow2_pos [of k] by (simp add: x_def field_simps)
  then have "x < 2 ^ 53"
    by (simp add: pow2_def)
  have err: "\<bar>of_int (round_half_even x) - x\<bar> \<le> 1 / 2"
    by (rule round_half_even_error)
  have "(of_int (round_half_even x) :: rat) < 2 ^ 53 + 1"
    using err \<open>x < 2 ^ 53\<close> by linarith
  then have "(of_int (round_half_even x) :: rat) < of_int (2 ^ 53 + 1)"
    by simp
  then have up: "round_half_even x \<le> 2 ^ 53"
    unfolding of_int_less_iff by simp
  have "(- 1 :: rat) < of_int (round_half_even x)"
    using err \<open>0 < x\<close> by linarith
  then have "(of_int (- 1) :: rat) < of_int (round_half_even x)"
    by simp
  then have lo: "0 \<le> round_half_even x"
    unfolding of_int_less_iff by simp
  show ?thesis
    using assms up lo by (auto simp: nearest_binary64_def Let_def k_def x_def)
qed

section \<open>The directional fetcher on a response\<close>

lemma ad_price_JStr [simp]: "ad_price parse (JStr s) = Inl TypeError"
  by (simp add: ad_price_def getitem_def)

lemma ad_prices_length: "ad_prices parse ads = Inr ps \<Longrightarrow> length ps = length ads"
proof (induction ads arbitrary: ps)
  case Nil
  then show ?case by simp
next
  case (Cons ad ads)
  then show ?case
    by (cases "ad_price parse ad"; cases "ad_prices parse ads") auto
qed

lemma is_success_JObj:
  "is_success (JObj kvs) =
     Inr (eq_str (field (JObj kvs) ''code'') ''000000'' \<or> eq_True (field (JObj kvs) ''success''))"
  by (simp add: is_success_def dict_get_def field_def)

lemma is_success_not_dict: "\<forall>kvs. dat \<noteq> JObj kvs \<Longrightarrow> is_success dat = Inl AttributeError"
  by (cases dat) (simp_all add: is_success_def dict_get_def)

lemma fetch_try_not_dict:
  assumes "post_search rt tt = Inr dat" and "\<forall>kvs. dat \<noteq> JObj kvs"
  shows "fetch_trade_type_average_try rt tt = Inl AttributeError"
  using assms by (simp add: fetch_trade_type_average_try_def is_success_not_dict)

lemma fetch_try_dict:
  assumes "post_search rt tt = Inr (JObj kvs)"
  shows "fetch_trade_type_average_try rt tt =
     ebind (has_data (JObj kvs)) (\<lambda>nonempty.
       if (eq_str (field (JObj kvs) ''code'') ''000000'' \<or> eq_True (field (JObj kvs) ''success''))
          \<and> nonempty
       then ebind (py_iter (field (JObj kvs) ''data'')) (\<lambda>ads.
              ebind (ad_prices (float_of_str rt) ads) (\<lambda>prices.
                ebind (truediv (py_sum prices) (length prices)) (\<lambda>avg. Inr (Some avg))))
       else Inr None)"
proof -
  have "has_data (JObj kvs) = Inr True \<Longrightarrow>
        getitem (JObj kvs) ''data'' = Inr (field (JObj kvs) ''data'')"
    by (auto simp: has_data_def dict_get_def getitem_def field_def truthy_def
        split: option.splits if_splits)
  then show ?thesis
    using assms
    by (cases "has_data (JObj kvs)") (auto simp: fetch_trade_type_average_try_def is_success_JObj)
qed

lemma has_data_list:
  "field (JObj kvs) ''data'' = JList ads \<Longrightarrow> has_data (JObj kvs) = Inr (ads \<noteq> [])"
  by (auto simp: has_data_def dict_get_def field_def truthy_def py_len_def split: option.splits)

text \<open>
  A data field that is no list either fails the check, or breaks \<^verbatim>\<open>len\<close>, or is a
  non-empty string or object, whose items are strings: \<^verbatim>\<open>ad['adv']\<close> then raises.
\<close>

lemma data_not_list:
  assumes "\<forall>ads. field (JObj kvs) ''data'' \<noteq> JList ads"
  shows "has_data (JObj kvs) = Inr False
       \<or> has_data (JObj kvs) = Inl TypeError
       \<or> (\<exists>s ads. py_iter (field (JObj kvs) ''data'') = Inr (JStr s # ads))"
proof (cases "field (JObj kvs) ''data''")
  case (JStr s)
  then show ?thesis
    by (cases s) (auto simp: has_data_def dict_get_def field_def truthy_def py_len_def py_iter_def
        split: option.splits)
next
  case (JObj m)
  show ?thesis
  proof (cases "m = []")
    case True
    with JObj show ?thesis
      by (auto simp: has_data_def dict_get_def field_def truthy_def split: option.splits)
  next
    case False
    then obtain y ys where "remdups (map fst m) = y # ys"
      by (cases "remdups (map fst m)") auto
    with JObj show ?thesis
      by (simp add: py_iter_def)
  qed
qed (use assms in \<open>auto simp: has_data_def dict_get_def field_def truthy_def py_len_def
        split: option.splits\<close>)

lemma fetch_on_response:
  assumes "post_search rt tt = Inr dat"
  shows "fetch_trade_type_average rt tt =
     Inr (if code_valid dat
          then (case field dat ''data'' of
                  JList ads \<Rightarrow>
                    (case ad_prices (float_of_str rt) ads of
                       Inl e \<Rightarrow> None
                     | Inr ps \<Rightarrow> float_mean ps)
                | _ \<Rightarrow> None)
          else None)"
proof (cases "\<exists>kvs. dat = JObj kvs")
  case False
  then have "fetch_trade_type_average_try rt tt = Inl AttributeError"
    using assms fetch_try_not_dict by blast
  moreover from False have "\<not> code_valid dat"
    by (cases dat) (simp_all add: code_valid_def field_def nonempty_list_def)
  ultimately show ?thesis
    by (simp add: fetch_trade_type_average_def)
next
  case True
  then obtain kvs where dat: "dat = JObj kvs" by blast
  note body = fetch_try_dict [OF assms [unfolded dat]]
  show ?thesis
  proof (cases "\<exists>ads. field dat ''data'' = JList ads")
    case True
    then obtain ads where ads: "field (JObj kvs) ''data'' = JList ads"
      using dat by blast
    show ?thesis
    proof (cases "ad_prices (float_of_str rt) ads")
      case (Inl e)
      then show ?thesis
        using body ads dat
        by (simp add: fetch_trade_type_average_def has_data_list code_valid_def
            nonempty_list_def py_iter_def)
    next
      case (Inr ps)
      have "ps = [] \<longleftrightarrow> ads = []"
        using ad_prices_length [OF Inr] by auto
      then show ?thesis
        using body ads dat Inr
        by (cases "ads = []")
           (simp_all add: fetch_trade_type_average_def has_data_list code_valid_def
              nonempty_list_def py_iter_def float_mean_def truediv_def)
    qed
  next
    case False
    then have nl: "\<forall>ads. field (JObj kvs) ''data'' \<noteq> JList ads"
      using dat by simp
    then have "\<not> code_valid dat"
      using dat
      by (cases "field (JObj kvs) ''data''") (simp_all add: code_valid_def nonempty_list_def)
    moreover have "fetch_trade_type_average rt tt = Inr None"
      using data_not_list [OF nl] body
      by (cases "has_data (JObj kvs)") (auto simp: fetch_trade_type_average_def)
    ultimately show ?thesis by simp
  qed
qed

lemma fetch_on_failure:
  "post_search rt tt = Inl e \<Longrightarrow> fetch_trade_type_average rt tt = Inr None"
  by (simp add: fetch_trade_type_average_def fetch_trade_type_average_try_def)

lemma fetch_returns: "\<exists>v. fetch_trade_type_average rt tt = Inr v"
  by (simp add: fetch_trade_type_average_def split: sum.splits)

section \<open>The aggregator on two directional averages\<close>

lemma rate_try_gathered:
  assumes "gather_fault rt = None"
    and "fetch_trade_type_average rt ''BUY'' = Inr ba"
    and "fetch_trade_type_average rt ''SELL'' = Inr sa"
  shows "get_binance_p2p_rate_try rt =
     (if avg_truthy ba \<and> avg_truthy sa
      then (case (ba, sa) of
              (Some b, Some s) \<Rightarrow>
                ebind (truediv (fadd b s) 2) (\<lambda>m.
                  Inr \<lparr>buy = Some (round2 b), sell = Some (round2 s),
                       average = Some (round2 m)\<rparr>)
            | _ \<Rightarrow> Inl TypeError)
      else Inr \<lparr>buy = round_if ba, sell = round_if sa, average = None\<rparr>)"
  using assms by (simp add: get_binance_p2p_rate_try_def gather_def)

lemma rate_try_fault: "gather_fault rt = Some e \<Longrightarrow> get_binance_p2p_rate_try rt = Inl e"
  by (simp add: get_binance_p2p_rate_try_def gather_def)

lemma rate_try_returns:
  assumes "gather_fault rt = None"
  shows "\<exists>r. get_binance_p2p_rate_try rt = Inr r"
proof -
  obtain ba sa where "fetch_trade_type_average rt ''BUY'' = Inr ba"
    and "fetch_trade_type_average rt ''SELL'' = Inr sa"
    using fetch_returns by blast
  from rate_try_gathered [OF assms this] show ?thesis
    by (auto simp: avg_truthy_def truediv_def split: option.splits)
qed


section \<open>The HTTP fetch helper\<close>

text \<open>
  Claim C10. For every method string whose upper-case form is not \<^verbatim>\<open>'POST'\<close> (not only
  \<^verbatim>\<open>'GET'\<close>), \<^verbatim>\<open>fetch_with_timeout\<close> performs a GET request that carries no body,
  whatever body was provided; and a method whose upper-case form is \<^verbatim>\<open>'POST'\<close> sends
  the provided body in a POST request.
\<close>

theorem fetch_with_timeout_verb:
  "(upper method \<noteq> ''POST'' \<longrightarrow>
      fetch_with_timeout rt u method hdrs dat tmo =
        http rt \<lparr>req_verb = GET, req_url = u, req_headers = hdrs,
                 req_body = None, req_timeout = tmo\<rparr>)
   \<and> (upper method = ''POST'' \<longrightarrow>
      fetch_with_timeout rt u method hdrs dat tmo =
        http rt \<lparr>req_verb = POST, req_url = u, req_headers = hdrs,
                 req_body = dat, req_timeout = tmo\<rparr>)"
  by (simp add: fetch_with_timeout_def)

theorem fetch_with_timeout_verb_witness:
  "upper ''put'' \<noteq> ''POST''
   \<and> fetch_with_timeout scenario_A url ''put'' (Some headers) (Some (payload_json ''BUY'')) 10 =
       http scenario_A \<lparr>req_verb = GET, req_url = url, req_headers = Some headers,
                        req_body = None, req_timeout = 10\<rparr>
   \<and> http scenario_A \<lparr>req_verb = GET, req_url = url, req_headers = Some headers,
                        req_body = None, req_timeout = 10\<rparr> = Inl ClientError
   \<and> upper ''Post'' = ''POST''
   \<and> fetch_with_timeout scenario_A url ''Post'' (Some headers) (Some (payload_json ''SELL'')) 10 =
       http scenario_A \<lparr>req_verb = POST, req_url = url, req_headers = Some headers,
                        req_body = Some (payload_json ''SELL''), req_timeout = 10\<rparr>
   \<and> http scenario_A \<lparr>req_verb = POST, req_url = url, req_headers = Some headers,
                        req_body = Some (payload_json ''SELL''), req_timeout = 10\<rparr> =
       Inr (ok_response [JStr ''36.80'', JStr ''36.90''])"
proof -
  have get: "upper ''put'' \<noteq> ''POST''" and post: "upper ''Post'' = ''POST''"
    by (simp_all add: upper_def upper_char_def)
  have served:
    "http scenario_A \<lparr>req_verb = GET, req_url = url, req_headers = Some headers,
                      req_body = None, req_timeout = 10\<rparr> = Inl ClientError"
    "http scenario_A \<lparr>req_verb = POST, req_url = url, req_headers = Some headers,
                      req_body = Some (payload_json ''SELL''), req_timeout = 10\<rparr> =
       Inr (ok_response [JStr ''36.80'', JStr ''36.90''])"
    by (simp_all add: scenario_A_def scenario_def serve_def payload_json_def)
  from fetch_with_timeout_verb [of "''put''" scenario_A url "Some headers"
      "Some (payload_json ''BUY'')" 10]
    fetch_with_timeout_verb [of "''Post''" scenario_A url "Some headers"
      "Some (payload_json ''SELL'')" 10]
    get post served
  show ?thesis by simp
qed

section \<open>The directional average fetcher\<close>

text \<open>
  Claim C4. Whatever a directional fetch meets (a transport failure, a timeout, a body
  that is not JSON, a response that fails the validation, a price that does not parse, or
  success), \<^verbatim>\<open>fetch_trade_type_average\<close> returns a value and raises nothing: an
  exception of the request, and any exception inside the \<^verbatim>\<open>try\<close> block, becomes the
  absent value, as does a failed validation and an unparsable price. The caller of
  \<^verbatim>\<open>get_binance_p2p_rate\<close> too always receives a value.
\<close>

theorem no_exception_escapes:
  "(\<exists>v. fetch_trade_type_average rt tt = Inr v)
   \<and> (\<exists>r. get_binance_p2p_rate rt = Inr r)
   \<and> (\<forall>e. post_search rt tt = Inl e \<longrightarrow> fetch_trade_type_average rt tt = Inr None)
   \<and> (\<forall>e. fetch_trade_type_average_try rt tt = Inl e \<longrightarrow>
          fetch_trade_type_average rt tt = Inr None)
   \<and> (\<forall>dat. post_search rt tt = Inr dat \<longrightarrow> \<not> code_valid dat \<longrightarrow>
          fetch_trade_type_average rt tt = Inr None)
   \<and> (\<forall>dat ads e. post_search rt tt = Inr dat \<longrightarrow> field dat ''data'' = JList ads \<longrightarrow>
          ad_prices (float_of_str rt) ads = Inl e \<longrightarrow>
          fetch_trade_type_average rt tt = Inr None)"
proof -
  have "\<exists>r. get_binance_p2p_rate rt = Inr r"
    by (simp add: get_binance_p2p_rate_def split: sum.splits)
  moreover have "fetch_trade_type_average rt tt = Inr None"
    if "fetch_trade_type_average_try rt tt = Inl e" for e
    using that by (simp add: fetch_trade_type_average_def)
  moreover have "fetch_trade_type_average rt tt = Inr None"
    if "post_search rt tt = Inr dat" "\<not> code_valid dat" for dat
    using fetch_on_response [OF that(1)] that(2) by simp
  moreover have "fetch_trade_type_average rt tt = Inr None"
    if "post_search rt tt = Inr dat" "field dat ''data'' = JList ads"
      "ad_prices (float_of_str rt) ads = Inl e" for dat ads e
    using fetch_on_response [OF that(1)] that(2,3) by simp
  ultimately show ?thesis
    using fetch_returns [of rt tt] fetch_on_failure [of rt tt] by blast
qed

theorem no_exception_escapes_witness:
  "post_search scenario_B ''BUY'' = Inl TimeoutError
   \<and> fetch_trade_type_average scenario_B ''BUY'' = Inr None
   \<and> post_search scenario_C ''BUY'' = Inr (ok_response [])
   \<and> \<not> code_valid (ok_response [])
   \<and> fetch_trade_type_average scenario_C ''BUY'' = Inr None
   \<and> post_search scenario_malformed ''BUY'' = Inr (ok_response [JStr ''36.50'', JStr ''n/a''])
   \<and> ad_prices (float_of_str scenario_malformed) (map advert [JStr ''36.50'', JStr ''n/a'']) =
       Inl ValueError
   \<and> fetch_trade_type_average scenario_malformed ''BUY'' = Inr None
   \<and> (\<exists>r. get_binance_p2p_rate scenario_malformed = Inr r)"
proof -
  have b: "post_search scenario_B ''BUY'' = Inl TimeoutError"
    by (simp add: scenario_B_def post_search_scenario)
  have c: "post_search scenario_C ''BUY'' = Inr (ok_response [])"
    by (simp add: scenario_C_def post_search_scenario)
  have c': "\<not> code_valid (ok_response [])"
    by (simp add: json_eval ok_response_def)
  have m: "post_search scenario_malformed ''BUY'' =
      Inr (ok_response [JStr ''36.50'', JStr ''n/a''])"
    by (simp add: scenario_malformed_def post_search_scenario)
  have m': "field (ok_response [JStr ''36.50'', JStr ''n/a'']) ''data'' =
      JList (map advert [JStr ''36.50'', JStr ''n/a''])"
    by (simp add: json_eval ok_response_def)
  have m'': "ad_prices (float_of_str scenario_malformed)
      (map advert [JStr ''36.50'', JStr ''n/a'']) = Inl ValueError"
    by (simp add: float_eval json_eval scen_eval ad_price_def)
  from no_exception_escapes [of scenario_B "''BUY''"] b
  have "fetch_trade_type_average scenario_B ''BUY'' = Inr None" by blast
  moreover from no_exception_escapes [of scenario_C "''BUY''"] c c'
  have "fetch_trade_type_average scenario_C ''BUY'' = Inr None" by blast
  moreover from no_exception_escapes [of scenario_malformed "''BUY''"] m m' m''
  have "fetch_trade_type_average scenario_malformed ''BUY'' = Inr None
      \<and> (\<exists>r. get_binance_p2p_rate scenario_malformed = Inr r)" by blast
  ultimately show ?thesis
    using b c c' m m'' by simp
qed

text \<open>
  Claim C5, as stated: a response is treated as successful, and its prices are extracted
  and averaged, exactly when the status code field equals the string \<^verbatim>\<open>"000000"\<close> or
  the boolean success field equals true, and the data field is a non-empty list;
  otherwise the fetcher returns an absent value. This fails on a response without status
  code whose success field is the number \<^verbatim>\<open>1\<close>: the validation of the claim rejects
  it, and the fetcher returns the average 5.0 of its single price, because the source
  compares with \<^verbatim>\<open>== True\<close> and \<^verbatim>\<open>1 == True\<close> holds in Python.
\<close>

theorem success_one_counterexample:
  "post_search scenario_success_one ''BUY'' = Inr response_success_one
   \<and> \<not> spec_valid response_success_one
   \<and> fetch_trade_type_average scenario_success_one ''BUY'' = Inr (Some (Fin False 5))"
proof -
  have "post_search scenario_success_one ''BUY'' = Inr response_success_one"
    by (simp add: scenario_success_one_def post_search_scenario)
  moreover have "\<not> spec_valid response_success_one"
    by (simp add: json_eval scen_eval)
  moreover have "fetch_trade_type_average scenario_success_one ''BUY'' = Inr (Some (Fin False 5))"
    by (simp add: float_eval json_eval prog_eval scen_eval)
  ultimately show ?thesis by simp
qed

text \<open>
  Claim C5, amended: with the success indicator read as Python reads it (the status code
  is the string \<^verbatim>\<open>"000000"\<close>, or the success field equals \<^verbatim>\<open>True\<close> under \<^verbatim>\<open>==\<close>, which
  the numbers \<^verbatim>\<open>1\<close> and \<^verbatim>\<open>1.0\<close> do as well), the fetcher extracts and averages the
  prices exactly when the indicator holds and the data field is a non-empty list; the
  result is then the float mean of the prices, or absent when a price cannot be
  extracted. In every other case the fetcher returns an absent value. A response that is
  valid in the words of the specification is valid in this sense.
\<close>

theorem fetch_validation:
  assumes "post_search rt tt = Inr dat"
  shows "(\<not> code_valid dat \<longrightarrow> fetch_trade_type_average rt tt = Inr None)
       \<and> (code_valid dat \<longrightarrow>
            (\<exists>ads. field dat ''data'' = JList ads \<and> ads \<noteq> []
               \<and> fetch_trade_type_average rt tt =
                   Inr (case ad_prices (float_of_str rt) ads of
                          Inl e \<Rightarrow> None
                        | Inr ps \<Rightarrow> float_mean ps)))
       \<and> (spec_valid dat \<longrightarrow> code_valid dat)"
proof -
  have "\<exists>ads. field dat ''data'' = JList ads \<and> ads \<noteq> []" if "code_valid dat"
    using that by (cases "field dat ''data''") (simp_all add: code_valid_def nonempty_list_def)
  moreover have "code_valid dat" if "spec_valid dat"
    using that by (auto simp: spec_valid_def code_valid_def eq_str_def eq_True_def)
  ultimately show ?thesis
    using fetch_on_response [OF assms] by auto
qed

theorem fetch_validation_witness:
  "post_search scenario_success_one ''SELL'' = Inr response_success_one
   \<and> code_valid response_success_one
   \<and> (\<exists>ads. field response_success_one ''data'' = JList ads \<and> ads \<noteq> []
         \<and> fetch_trade_type_average scenario_success_one ''SELL'' =
             Inr (case ad_prices (float_of_str scenario_success_one) ads of
                    Inl e \<Rightarrow> None
                  | Inr ps \<Rightarrow> float_mean ps))
   \<and> post_search scenario_C ''SELL'' = Inr (ok_response [])
   \<and> \<not> code_valid (ok_response [])
   \<and> fetch_trade_type_average scenario_C ''SELL'' = Inr None
   \<and> spec_valid (ok_response [JStr ''37.00''])
   \<and> code_valid (ok_response [JStr ''37.00''])"
proof -
  have one: "post_search scenario_success_one ''SELL'' = Inr response_success_one"
    by (simp add: scenario_success_one_def post_search_scenario)
  have one': "code_valid response_success_one"
    by (simp add: json_eval scen_eval)
  have c: "post_search scenario_C ''SELL'' = Inr (ok_response [])"
    by (simp add: scenario_C_def post_search_scenario)
  have c': "\<not> code_valid (ok_response [])"
    by (simp add: json_eval ok_response_def)
  have b: "post_search scenario_B ''SELL'' = Inr (ok_response [JStr ''37.00''])"
    by (simp add: scenario_B_def post_search_scenario)
  have b': "spec_valid (ok_response [JStr ''37.00''])"
    by (simp add: json_eval ok_response_def)
  from fetch_validation [OF one] fetch_validation [OF c] fetch_validation [OF b]
    one one' c c' b'
  show ?thesis by blast
qed




section \<open>The rate aggregator\<close>

text \<open>
  Claim C1. For every invocation of the aggregator that returns a Rate Result, the
  market average field of the result is present if and only if both its buy average
  field and its sell average field are present.
\<close>

theorem average_present_iff_both:
  "get_binance_p2p_rate rt = Inr (Some r) \<Longrightarrow>
     (average r \<noteq> None) = (buy r \<noteq> None \<and> sell r \<noteq> None)"
  by (auto simp: get_binance_p2p_rate_def get_binance_p2p_rate_try_def gather_def ebind_def
      round_if_def avg_truthy_def truediv_def
      split: sum.splits option.splits if_splits prod.splits)

theorem average_present_iff_both_witness:
  "get_binance_p2p_rate scenario_B =
     Inr (Some \<lparr>buy = None, sell = Some (Fin False 37), average = None\<rparr>)
   \<and> (average \<lparr>buy = None, sell = Some (Fin False 37), average = None\<rparr> \<noteq> None) =
      (buy \<lparr>buy = None, sell = Some (Fin False 37), average = None\<rparr> \<noteq> None
       \<and> sell \<lparr>buy = None, sell = Some (Fin False 37), average = None\<rparr> \<noteq> None)
   \<and> get_binance_p2p_rate scenario_success_one =
     Inr (Some \<lparr>buy = Some (Fin False 5), sell = Some (Fin False 5),
                average = Some (Fin False 5)\<rparr>)
   \<and> (average \<lparr>buy = Some (Fin False 5), sell = Some (Fin False 5),
                average = Some (Fin False 5)\<rparr> \<noteq> None) =
      (buy \<lparr>buy = Some (Fin False 5), sell = Some (Fin False 5),
             average = Some (Fin False 5)\<rparr> \<noteq> None
       \<and> sell \<lparr>buy = Some (Fin False 5), sell = Some (Fin False 5),
                average = Some (Fin False 5)\<rparr> \<noteq> None)"
proof -
  have b: "get_binance_p2p_rate scenario_B =
     Inr (Some \<lparr>buy = None, sell = Some (Fin False 37), average = None\<rparr>)"
    by (simp add: float_eval json_eval prog_eval scen_eval)
  have one: "get_binance_p2p_rate scenario_success_one =
     Inr (Some \<lparr>buy = Some (Fin False 5), sell = Some (Fin False 5),
                average = Some (Fin False 5)\<rparr>)"
    by (simp add: float_eval json_eval prog_eval scen_eval)
  from average_present_iff_both [OF b] average_present_iff_both [OF one] b one
  show ?thesis by blast
qed

text \<open>
  When both directional averages \<open>b\<close> and \<open>s\<close> are present and neither is a zero, the
  result carries \<^verbatim>\<open>round(b, 2)\<close>, \<^verbatim>\<open>round(s, 2)\<close> and \<^verbatim>\<open>round((b + s) / 2, 2)\<close>:
  the source tests \<^verbatim>\<open>if buy_avg and sell_avg\<close>.
\<close>

lemma full_result_when_both_truthy:
  assumes "gather_fault rt = None"
    and "fetch_trade_type_average rt ''BUY'' = Inr (Some b)"
    and "fetch_trade_type_average rt ''SELL'' = Inr (Some s)"
    and "float_truthy b" and "float_truthy s"
  shows "\<exists>m. truediv (fadd b s) 2 = Inr m
           \<and> get_binance_p2p_rate rt =
               Inr (Some \<lparr>buy = Some (round2 b), sell = Some (round2 s),
                          average = Some (round2 m)\<rparr>)"
  using rate_try_gathered [OF assms(1,2,3)] assms(4,5)
  by (simp add: get_binance_p2p_rate_def avg_truthy_def truediv_def)

text \<open>
  Claim C3. For every invocation where both directional averages \<open>b\<close> and \<open>s\<close> are
  present, the Rate Result has the market average \<^verbatim>\<open>round((b + s) / 2, 2)\<close> and the buy
  and sell fields \<^verbatim>\<open>round(b, 2)\<close> and \<^verbatim>\<open>round(s, 2)\<close>. The source breaks this at a BUY
  side whose single price is \<^verbatim>\<open>"0.00"\<close> next to a SELL side at \<^verbatim>\<open>"37.00"\<close>: both
  directional averages are present, 0.0 and 37.0, and the result has neither a buy field
  nor a market average. The comments of the source reserve this
  branch for a direction that failed (\<^verbatim>\<open>Si uno de los dos falla\<close>) and for a missing
  value (\<^verbatim>\<open>si falta un valor\<close>); here no direction failed and no value is missing.
\<close>

theorem zero_buy_average_dropped:
  "fetch_trade_type_average scenario_zero ''BUY'' = Inr (Some (Fin False 0))
   \<and> fetch_trade_type_average scenario_zero ''SELL'' = Inr (Some (Fin False 37))
   \<and> get_binance_p2p_rate scenario_zero =
       Inr (Some \<lparr>buy = None, sell = Some (Fin False 37), average = None\<rparr>)"
proof -
  have "fetch_trade_type_average scenario_zero ''BUY'' = Inr (Some (Fin False 0))"
    by (simp add: float_eval json_eval prog_eval scen_eval)
  moreover have "fetch_trade_type_average scenario_zero ''SELL'' = Inr (Some (Fin False 37))"
    by (simp add: float_eval json_eval prog_eval scen_eval)
  moreover have "get_binance_p2p_rate scenario_zero =
       Inr (Some \<lparr>buy = None, sell = Some (Fin False 37), average = None\<rparr>)"
    by (simp add: float_eval json_eval prog_eval scen_eval)
  ultimately show ?thesis by simp
qed

text \<open>
  Claim C6. If both directional fetches fail the validation (for example, both responses
  carry an empty data list) and the orchestration itself raises nothing, the aggregator
  returns a Rate Result whose three fields are all absent: a partial result, not the null
  outcome.
\<close>

theorem both_fail_validation:
  assumes "gather_fault rt = None"
    and "post_search rt ''BUY'' = Inr datb" and "\<not> code_valid datb"
    and "post_search rt ''SELL'' = Inr dats" and "\<not> code_valid dats"
  shows "get_binance_p2p_rate rt = Inr (Some \<lparr>buy = None, sell = None, average = None\<rparr>)"
proof -
  have "fetch_trade_type_average rt ''BUY'' = Inr None"
    using fetch_on_response [OF assms(2)] assms(3) by simp
  moreover have "fetch_trade_type_average rt ''SELL'' = Inr None"
    using fetch_on_response [OF assms(4)] assms(5) by simp
  ultimately show ?thesis
    using rate_try_gathered [OF assms(1)]
    by (simp add: get_binance_p2p_rate_def avg_truthy_def round_if_def)
qed

theorem both_fail_validation_witness:
  "gather_fault scenario_C = None
   \<and> post_search scenario_C ''BUY'' = Inr (ok_response [])
   \<and> post_search scenario_C ''SELL'' = Inr (ok_response [])
   \<and> field (ok_response []) ''data'' = JList []
   \<and> \<not> code_valid (ok_response [])
   \<and> get_binance_p2p_rate scenario_C = Inr (Some \<lparr>buy = None, sell = None, average = None\<rparr>)"
proof -
  have g: "gather_fault scenario_C = None"
    by (simp add: scenario_C_def scenario_def)
  have b: "post_search scenario_C ''BUY'' = Inr (ok_response [])"
    and s: "post_search scenario_C ''SELL'' = Inr (ok_response [])"
    by (simp_all add: scenario_C_def post_search_scenario)
  have e: "field (ok_response []) ''data'' = JList []"
    by (simp add: json_eval ok_response_def)
  have v: "\<not> code_valid (ok_response [])"
    by (simp add: json_eval ok_response_def)
  from both_fail_validation [OF g b v s v] g b s e v show ?thesis by simp
qed

text \<open>
  Claim C7. If an exception leaves the orchestration itself, outside both directional
  fetchers, the aggregator returns the null result and no Rate Result. In the embedding
  such an exception comes from the \<^verbatim>\<open>await\<close> on \<^verbatim>\<open>asyncio.gather\<close>, and it is the only
  way to the null result: without it the aggregator returns a Rate Result.
\<close>

theorem orchestration_exception_gives_null:
  "(\<forall>e. get_binance_p2p_rate_try rt = Inl e \<longrightarrow> get_binance_p2p_rate rt = Inr None)
   \<and> (\<forall>e. gather_fault rt = Some e \<longrightarrow>
          get_binance_p2p_rate_try rt = Inl e \<and> get_binance_p2p_rate rt = Inr None)
   \<and> (gather_fault rt = None \<longrightarrow> (\<exists>r. get_binance_p2p_rate rt = Inr (Some r)))"
proof -
  have "\<exists>r. get_binance_p2p_rate rt = Inr (Some r)" if "gather_fault rt = None"
    using rate_try_returns [OF that] by (auto simp: get_binance_p2p_rate_def)
  then show ?thesis
    by (auto simp: get_binance_p2p_rate_def rate_try_fault)
qed

theorem orchestration_exception_gives_null_witness:
  "gather_fault scenario_D = Some RuntimeError
   \<and> get_binance_p2p_rate_try scenario_D = Inl RuntimeError
   \<and> get_binance_p2p_rate scenario_D = Inr None
   \<and> gather_fault scenario_C = None
   \<and> (\<exists>r. get_binance_p2p_rate scenario_C = Inr (Some r))"
proof -
  have d: "gather_fault scenario_D = Some RuntimeError"
    by (simp add: scenario_D_def)
  have c: "gather_fault scenario_C = None"
    by (simp add: scenario_C_def scenario_def)
  from orchestration_exception_gives_null [of scenario_D]
    orchestration_exception_gives_null [of scenario_C] d c
  show ?thesis by simp
qed

text \<open>
  Claim C8. If a directional fetch succeeds and its average is exactly 0.0 (or -0.0),
  the aggregator treats that direction as absent: when the orchestration raises nothing,
  the result is a Rate Result in which the field of that direction is absent and the
  market average is absent, because the source tests the averages for truthiness.
\<close>

theorem zero_average_treated_as_absent:
  assumes "gather_fault rt = None"
  shows "(fetch_trade_type_average rt ''BUY'' = Inr (Some (Fin sg 0)) \<longrightarrow>
            (\<exists>r. get_binance_p2p_rate rt = Inr (Some r) \<and> buy r = None \<and> average r = None))
       \<and> (fetch_trade_type_average rt ''SELL'' = Inr (Some (Fin sg 0)) \<longrightarrow>
            (\<exists>r. get_binance_p2p_rate rt = Inr (Some r) \<and> sell r = None \<and> average r = None))"
proof -
  obtain ba sa where ba: "fetch_trade_type_average rt ''BUY'' = Inr ba"
    and sa: "fetch_trade_type_average rt ''SELL'' = Inr sa"
    using fetch_returns by blast
  have zero: "\<not> avg_truthy (Some (Fin sg 0))"
    by (simp add: avg_truthy_def float_truthy_def)
  show ?thesis
    using rate_try_gathered [OF assms ba sa] ba sa zero
    by (auto simp: get_binance_p2p_rate_def round_if_def)
qed

theorem zero_average_treated_as_absent_witness:
  "gather_fault scenario_zero = None
   \<and> fetch_trade_type_average scenario_zero ''BUY'' = Inr (Some (Fin False 0))
   \<and> (\<exists>r. get_binance_p2p_rate scenario_zero = Inr (Some r) \<and> buy r = None \<and> average r = None)"
proof -
  have g: "gather_fault scenario_zero = None"
    by (simp add: scenario_zero_def scenario_def)
  have z: "fetch_trade_type_average scenario_zero ''BUY'' = Inr (Some (Fin False 0))"
    by (simp add: float_eval json_eval prog_eval scen_eval)
  from zero_average_treated_as_absent [OF g, of False] g z show ?thesis by blast
qed

text \<open>
  Claim C9, as stated: on the inputs of Scenario A (BUY prices 36.50, 36.60, 36.40 and
  SELL prices 36.80, 36.90) the aggregator produces the buy average 36.50, the sell
  average 36.85 and the market average 36.68. The result of the source is not this
  record.
\<close>

theorem scenario_A_counterexample:
  "get_binance_p2p_rate scenario_A \<noteq>
     Inr (Some \<lparr>buy = float_of_decimal ''36.50'', sell = float_of_decimal ''36.85'',
                average = float_of_decimal ''36.68''\<rparr>)"
  by (simp add: float_eval json_eval prog_eval scen_eval)

text \<open>
  Claim C9, amended: on the inputs of Scenario A the aggregator produces the buy average
  36.50, the sell average 36.85 and the market average 36.67. The unrounded sell average
  is the float 36.849999999999994, and the float \<^verbatim>\<open>(36.5 + 36.849999999999994) / 2\<close>
  lies below the decimal 36.675, so that \<^verbatim>\<open>round\<close> goes down.
\<close>

theorem scenario_A_result:
  "get_binance_p2p_rate scenario_A =
     Inr (Some \<lparr>buy = float_of_decimal ''36.50'', sell = float_of_decimal ''36.85'',
                average = float_of_decimal ''36.67''\<rparr>)"
  by (simp add: float_eval json_eval prog_eval scen_eval)

end
